theory Spec2Isabelle
  imports Main "HOL-Library.Word" "HOL-Library.Log_Nat"
begin

unbundle bit_operations_syntax

section \<open>JavaScript numbers\<close>

text \<open>
  \<^verbatim>\<open>export class CounterState extends State<number>\<close>: the state is a JavaScript number, a
  binary64 floating-point value. A number is finite, one of the two infinities, or NaN. A
  finite number is given by its value, a rational; the two zeros are one value here (the
  handlers add and subtract \<open>1\<close> and compare with \<open>0\<close>, which does not tell them apart).
\<close>

datatype number = Finite rat | Infinity | NegInfinity | NaN

text \<open>\<open>floor_log2 a\<close> is the \<open>e\<close> with \<open>2\<^sup>e \<le> a < 2\<^sup>e\<^sup>+\<^sup>1\<close>, for \<open>a > 0\<close>.\<close>

definition floor_log2 :: "rat \<Rightarrow> int" where
  "floor_log2 a = (if 1 \<le> a then bitlen \<lfloor>a\<rfloor> - 1 else - bitlen (\<lceil>1 / a\<rceil> - 1))"

text \<open>Rounding to the nearest integer, a tie going to the even one.\<close>

definition round_half_even :: "rat \<Rightarrow> int" where
  "round_half_even m =
     (let f = \<lfloor>m\<rfloor>; r = m - of_int f
      in if r < 1 / 2 then f else if 1 / 2 < r then f + 1 else if even f then f else f + 1)"

text \<open>
  The number that an exact result \<open>x\<close> becomes: \<open>x\<close> rounded to the nearest value with a
  significand of 53 bits, ties to even. The spacing of these values around \<open>x\<close> is \<open>2\<^sup>k\<close>
  with \<open>k = e - 52\<close>, where \<open>e\<close> is the exponent of \<open>x\<close> and at least \<open>-1022\<close> (below it the
  numbers are subnormal); a result of \<open>2\<^sup>1\<^sup>0\<^sup>2\<^sup>4\<close> or more is an infinity.
\<close>

definition round_to_double :: "rat \<Rightarrow> number" where
  "round_to_double x =
     (if x = 0 then Finite 0
      else
        let a = \<bar>x\<bar>;
            k = max (floor_log2 a) (- 1022) - 52;
            r = of_int (round_half_even (a / 2 powi k)) * 2 powi k
        in if 2 ^ 1024 \<le> r then (if 0 < x then Infinity else NegInfinity)
           else Finite (sgn x * r))"

text \<open>The values of the type that are numbers: the finite ones are the rounded ones.\<close>

definition is_number :: "number \<Rightarrow> bool" where
  "is_number v = (case v of Finite x \<Rightarrow> round_to_double x = Finite x | _ \<Rightarrow> True)"

text \<open>The operators \<^verbatim>\<open>+\<close>, \<^verbatim>\<open>-\<close>, \<^verbatim>\<open>>\<close> and \<^verbatim>\<open>>=\<close> on numbers.\<close>

fun js_add :: "number \<Rightarrow> number \<Rightarrow> number" where
  "js_add NaN _ = NaN"
| "js_add _ NaN = NaN"
| "js_add Infinity NegInfinity = NaN"
| "js_add NegInfinity Infinity = NaN"
| "js_add Infinity _ = Infinity"
| "js_add _ Infinity = Infinity"
| "js_add NegInfinity _ = NegInfinity"
| "js_add _ NegInfinity = NegInfinity"
| "js_add (Finite x) (Finite y) = round_to_double (x + y)"

fun js_sub :: "number \<Rightarrow> number \<Rightarrow> number" where
  "js_sub NaN _ = NaN"
| "js_sub _ NaN = NaN"
| "js_sub Infinity Infinity = NaN"
| "js_sub NegInfinity NegInfinity = NaN"
| "js_sub Infinity _ = Infinity"
| "js_sub _ Infinity = NegInfinity"
| "js_sub NegInfinity _ = NegInfinity"
| "js_sub _ NegInfinity = Infinity"
| "js_sub (Finite x) (Finite y) = round_to_double (x - y)"

fun js_gt :: "number \<Rightarrow> number \<Rightarrow> bool" where
  "js_gt NaN _ = False"
| "js_gt _ NaN = False"
| "js_gt Infinity Infinity = False"
| "js_gt Infinity _ = True"
| "js_gt _ Infinity = False"
| "js_gt NegInfinity _ = False"
| "js_gt _ NegInfinity = True"
| "js_gt (Finite x) (Finite y) = (y < x)"

fun js_ge :: "number \<Rightarrow> number \<Rightarrow> bool" where
  "js_ge NaN _ = False"
| "js_ge _ NaN = False"
| "js_ge Infinity _ = True"
| "js_ge _ Infinity = False"
| "js_ge _ NegInfinity = True"
| "js_ge NegInfinity _ = False"
| "js_ge (Finite x) (Finite y) = (y \<le> x)"

section \<open>The counter state machine\<close>

text \<open>
  The counter rollup keeps one number as its state, \<^verbatim>\<open>State<number>\<close>.
\<close>

type_synonym state = number

text \<open>
  \<^verbatim>\<open>const schema = { timestamp: SolidityType.UINT } as const;\<close>
  The inputs of both transitions: one unsigned field, used as a nonce.
\<close>

record inputs =
  timestamp :: nat

text \<open>
  The action parameters built by the client:
  \<^verbatim>\<open>{ name, inputs, signature, msgSender: wallet.address }\<close>.
  The signature and the sender stay abstract (type variables).
\<close>

record ('sig, 'addr) action =
  name :: string
  inputs :: inputs
  signature :: 'sig
  msgSender :: 'addr

text \<open>
  \<^verbatim>\<open>REQUIRE(cond, message)\<close> of the SDK "works similarly to the require function in
  Solidity": it aborts the handler with the message when the condition is false. The
  abort is the value \<open>Inl (RequirementFailure message)\<close>.
\<close>

datatype requirement_error = RequirementFailure string

definition REQUIRE :: "bool \<Rightarrow> string \<Rightarrow> requirement_error + unit" where
  "REQUIRE cond message = (if cond then Inr () else Inl (RequirementFailure message))"

text \<open>
  \<^verbatim>\<open>
  const increment = CounterState.STF({
    schema,
    handler: ({ state }) => {
      state += 1;
      return state;
    },
  });
  \<close>
  A handler receives the current state and the typed inputs of the action; this one reads
  the state only.
\<close>

definition increment :: "state \<Rightarrow> inputs \<Rightarrow> requirement_error + state" where
  "increment state0 ins = (let state = js_add state0 (Finite 1) in Inr state)"

text \<open>
  \<^verbatim>\<open>
  const decrement = CounterState.STF({
    schema,
    handler: ({ state }) => {
      state -= 1;
      REQUIRE(state > 0, "Cannot decrement below 0");
      return state;
    },
  });
  \<close>
  The subtraction comes first, the check is on the decremented value.
\<close>

definition decrement :: "state \<Rightarrow> inputs \<Rightarrow> requirement_error + state" where
  "decrement state0 ins =
     (let state = js_sub state0 (Finite 1) in
      case REQUIRE (js_gt state (Finite 0)) ''Cannot decrement below 0'' of
        Inl e \<Rightarrow> Inl e
      | Inr _ \<Rightarrow> Inr state)"

text \<open>
  \<^verbatim>\<open>export const transitions: Transitions<CounterState> = { increment, decrement };\<close>
  The table from transition names to handlers.
\<close>

definition transitions :: "string \<rightharpoonup> (state \<Rightarrow> inputs \<Rightarrow> requirement_error + state)" where
  "transitions = [''increment'' \<mapsto> increment, ''decrement'' \<mapsto> decrement]"

text \<open>\<^verbatim>\<open>genesis-state.json: { "state": 0 }\<close>\<close>

definition genesis :: state where
  "genesis = Finite 0"

section \<open>The state root\<close>

text \<open>
  Modelled from the spec: the hash library behind \<^verbatim>\<open>solidityPackedKeccak256\<close> is not among
  the sources. The spec asks for "a pure function [that] maps a State value to a fixed-size
  hash deterministically"; the source names the function, so the model is that function:
  Keccak-256 (the sponge over the permutation Keccak-f[1600], rate 136 bytes, padding
  \<open>0x01 .. 0x80\<close>, 32 bytes of output) applied to Solidity's packed encoding of one
  \<open>uint256\<close> (32 bytes, big-endian).
\<close>

type_synonym byte = "8 word"
type_synonym lane = "64 word"

definition rotl64 :: "lane \<Rightarrow> nat \<Rightarrow> lane" where
  "rotl64 w n = push_bit n w OR drop_bit (64 - n) w"

definition round_constants :: "lane list" where
  "round_constants =
    [0x0000000000000001, 0x0000000000008082, 0x800000000000808A, 0x8000000080008000,
     0x000000000000808B, 0x0000000080000001, 0x8000000080008081, 0x8000000000008009,
     0x000000000000008A, 0x0000000000000088, 0x0000000080008009, 0x000000008000000A,
     0x000000008000808B, 0x800000000000008B, 0x8000000000008089, 0x8000000000008003,
     0x8000000000008002, 0x8000000000000080, 0x000000000000800A, 0x800000008000000A,
     0x8000000080008081, 0x8000000000008080, 0x0000000080000001, 0x8000000080008008]"

text \<open>The 25 lanes of the permutation's state are a list; lane \<open>(x, y)\<close> is at \<open>x + 5 * y\<close>.\<close>

definition rotation_offsets :: "nat list" where
  "rotation_offsets =
    [ 0,  1, 62, 28, 27,
     36, 44,  6, 55, 20,
      3, 10, 43, 25, 39,
     41, 45, 15, 21,  8,
     18,  2, 61, 56, 14]"

definition theta :: "lane list \<Rightarrow> lane list" where
  "theta a =
     (let c = map (\<lambda>x. a ! x XOR a ! (x + 5) XOR a ! (x + 10) XOR a ! (x + 15) XOR a ! (x + 20))
                [0..<5];
          d = map (\<lambda>x. c ! ((x + 4) mod 5) XOR rotl64 (c ! ((x + 1) mod 5)) 1) [0..<5]
      in map (\<lambda>i. a ! i XOR d ! (i mod 5)) [0..<25])"

text \<open>
  The steps rho and pi together: the lane that lands at \<open>(X, Y)\<close> is the rotated lane
  \<open>(x, y)\<close> with \<open>X = y\<close> and \<open>Y = 2 x + 3 y\<close>, that is \<open>x = X + 3 Y\<close> and \<open>y = X\<close>
  modulo 5.
\<close>

definition rho_pi :: "lane list \<Rightarrow> lane list" where
  "rho_pi a =
     map (\<lambda>j. let i = (j mod 5 + 3 * (j div 5)) mod 5 + 5 * (j mod 5)
              in rotl64 (a ! i) (rotation_offsets ! i)) [0..<25]"

definition chi :: "lane list \<Rightarrow> lane list" where
  "chi b =
     map (\<lambda>j. let x = j mod 5; y = j div 5
              in b ! j XOR (NOT (b ! ((x + 1) mod 5 + 5 * y)) AND b ! ((x + 2) mod 5 + 5 * y)))
       [0..<25]"

definition iota :: "lane \<Rightarrow> lane list \<Rightarrow> lane list" where
  "iota rc a = a[0 := a ! 0 XOR rc]"

definition keccak_round :: "lane list \<Rightarrow> lane \<Rightarrow> lane list" where
  "keccak_round a rc = iota rc (chi (rho_pi (theta a)))"

definition keccak_f1600 :: "lane list \<Rightarrow> lane list" where
  "keccak_f1600 a = foldl keccak_round a round_constants"

text \<open>Lanes are read from and written to bytes least significant byte first.\<close>

definition lane_of_bytes :: "byte list \<Rightarrow> lane" where
  "lane_of_bytes bs = foldr (\<lambda>b acc. ucast b OR push_bit 8 acc) bs 0"

definition bytes_of_lane :: "lane \<Rightarrow> byte list" where
  "bytes_of_lane w = map (\<lambda>k. ucast (drop_bit (8 * k) w)) [0..<8]"

definition pad :: "byte list \<Rightarrow> byte list" where
  "pad bs =
     (let q = 136 - length bs mod 136
      in if q = 1 then bs @ [0x81] else bs @ [0x01] @ replicate (q - 2) 0 @ [0x80])"

definition blocks_of :: "byte list \<Rightarrow> byte list list" where
  "blocks_of bs = map (\<lambda>k. take 136 (drop (136 * k) bs)) [0..<length bs div 136]"

definition absorb :: "lane list \<Rightarrow> byte list \<Rightarrow> lane list" where
  "absorb st blk =
     keccak_f1600
       (map (\<lambda>i. if i < 17 then st ! i XOR lane_of_bytes (take 8 (drop (8 * i) blk)) else st ! i)
          [0..<25])"

definition keccak256 :: "byte list \<Rightarrow> byte list" where
  "keccak256 bs =
     take 32 (concat (map bytes_of_lane (foldl absorb (replicate 25 0) (blocks_of (pad bs)))))"

text \<open>
  Modelled from the spec: the library's conversion of a JavaScript number to an unsigned
  big integer, not among the sources. It refuses a number that is not an integer (NaN and
  the infinities among them) as an underflow, one outside the safe integers
  (\<open>\<plusminus>(2\<^sup>5\<^sup>3 - 1)\<close>) as an overflow and a negative one as not unsigned.
\<close>

datatype ethers_error = Underflow | Overflow | NegativeUnsigned

definition MAX_SAFE_INTEGER :: int where
  "MAX_SAFE_INTEGER = 0x1fffffffffffff"

definition getUint :: "number \<Rightarrow> ethers_error + nat" where
  "getUint v =
     (case v of
        Finite x \<Rightarrow>
          if of_int \<lfloor>x\<rfloor> = x then
            (if \<lfloor>x\<rfloor> < - MAX_SAFE_INTEGER \<or> MAX_SAFE_INTEGER < \<lfloor>x\<rfloor> then Inl Overflow
             else if \<lfloor>x\<rfloor> < 0 then Inl NegativeUnsigned
             else Inr (nat \<lfloor>x\<rfloor>))
          else Inl Underflow
      | _ \<Rightarrow> Inl Underflow)"

text \<open>
  Modelled from the spec: Solidity's packed encoding of a \<open>uint256\<close>, the value written
  big-endian on 32 bytes.
\<close>

definition uint256_bytes :: "nat \<Rightarrow> byte list" where
  "uint256_bytes n = map (\<lambda>k. of_nat (n div 256 ^ (31 - k))) [0..<32]"

text \<open>
  Modelled from the spec: \<^verbatim>\<open>solidityPackedKeccak256(["uint256"], [v])\<close>, the Keccak-256 hash
  of the packed encoding of the one value.
\<close>

definition solidityPackedKeccak256_uint256 :: "number \<Rightarrow> ethers_error + byte list" where
  "solidityPackedKeccak256_uint256 v =
     (case getUint v of Inl e \<Rightarrow> Inl e | Inr n \<Rightarrow> Inr (keccak256 (uint256_bytes n)))"

text \<open>
  \<^verbatim>\<open>
  export class CounterState extends State<number> {
    getRootHash(): BytesLike {
      return solidityPackedKeccak256(["uint256"], [this.state]);
    }
  }
  \<close>
\<close>

definition getRootHash :: "state \<Rightarrow> ethers_error + byte list" where
  "getRootHash this_state = solidityPackedKeccak256_uint256 this_state"

section \<open>The transition executor\<close>

text \<open>
  Modelled from the spec: the Transition Executor belongs to the SDK and is not among the
  sources, which only hand it the state class and the transition table. Spec 4.4:
  \<open>apply(currentState, action) -> (newState, rootHash) | ExecutionError\<close>; "resolve
  transition by name; execute handler with (currentState, typedInputs); handler may signal
  a requirement failure [...] which the Executor treats as a normal rejection [...]. Any
  other fault [...] is a fatal error distinct from a requirement failure". A root the
  state class cannot compute is such a fault.
\<close>

datatype execution_error =
  NotFoundError
  | Rejection requirement_error
  | FatalExecutionError ethers_error

definition apply_action ::
  "state \<Rightarrow> ('sig, 'addr) action \<Rightarrow> execution_error + state \<times> byte list" where
  "apply_action currentState a =
     (case transitions (name a) of
        None \<Rightarrow> Inl NotFoundError
      | Some handler \<Rightarrow>
          (case handler currentState (inputs a) of
             Inl e \<Rightarrow> Inl (Rejection e)
           | Inr newState \<Rightarrow>
               (case getRootHash newState of
                  Inl e \<Rightarrow> Inl (FatalExecutionError e)
                | Inr rootHash \<Rightarrow> Inr (newState, rootHash))))"

text \<open>
  Modelled from the spec: running an ordered list of actions against the state container.
  Spec 3 and 4.5: each action has an outcome, "applied with resulting state root, or
  rejected with a reason"; "accepted actions advance the working state, rejected ones are
  recorded with reason but do not advance it"; "only a fatal executor error aborts".
\<close>

datatype outcome = Applied "byte list" | Rejected execution_error

fun replay ::
  "state \<Rightarrow> ('sig, 'addr) action list \<Rightarrow> ethers_error + state \<times> outcome list" where
  "replay s [] = Inr (s, [])"
| "replay s (a # rest) =
     (case apply_action s a of
        Inr (s', rootHash) \<Rightarrow>
          (case replay s' rest of
             Inl e \<Rightarrow> Inl e
           | Inr (t, os) \<Rightarrow> Inr (t, Applied rootHash # os))
      | Inl (FatalExecutionError e) \<Rightarrow> Inl e
      | Inl rej \<Rightarrow>
          (case replay s rest of
             Inl e \<Rightarrow> Inl e
           | Inr (t, os) \<Rightarrow> Inr (t, Rejected rej # os)))"

section \<open>The configuration\<close>

text \<open>
  \<^verbatim>\<open>
  const stackrConfig: StackrConfig = {
    sequencer: { blockSize: 16, blockTime: 1000 },
    domain: { name: "Stackr MVP v0", version: "1", salt: "0x0123...cdef" },
    ...
  };
  \<close>
  The two parts of the configuration that the sequencer and the signatures read. The
  block time is in milliseconds. (The domain's \<open>name\<close> is the field \<open>dname\<close> here, as
  \<open>name\<close> is the action's.)
\<close>

record sequencer_config =
  blockSize :: nat
  blockTime :: nat

record domain =
  dname :: string
  version :: string
  salt :: string


definition stackrConfig_domain :: domain where
  "stackrConfig_domain =
     \<lparr>dname = ''Stackr MVP v0'', version = ''1'',
      salt = ''0x0123456789abcdef0123456789abcdef0123456789abcdef0123456789abcdef''\<rparr>"

section \<open>The block assembler\<close>

text \<open>
  Modelled from the spec: the Block Assembler (the sequencer) belongs to the SDK; the
  sources only configure it. Spec 4.5: "State machine: Open \<rightarrow> Sealing \<rightarrow> Sealed. In Open,
  actions are pulled from a pending queue in arrival [...] order [...]; accepted actions
  advance the working state, rejected ones are recorded with reason but do not advance it.
  Transition to Sealing occurs when the action count reaches the configured block size OR
  the configured block time elapses, whichever first [...]. Transition to Sealed finalizes
  the block's pre/post state roots and makes the block immutable; no further actions may be
  appended. [...] only a fatal executor error aborts block assembly entirely".

  Time is logical: the assembler sees an event for each pending action (already validated
  and authenticated) and an event for time that has passed, in milliseconds. The action
  count is the number of actions recorded in the block.
\<close>

datatype phase = Open | Sealing | Sealed

text \<open>
  The assembler: its phase, the state when the block was opened, the working state, the
  actions recorded so far with their outcomes, and the time elapsed since the block was
  opened.
\<close>

record ('sig, 'addr) assembler =
  phase :: phase
  preState :: state
  workingState :: state
  entries :: "(('sig, 'addr) action \<times> outcome) list"
  elapsed :: nat

datatype ('sig, 'addr) event = Pending "('sig, 'addr) action" | Elapsed nat


text \<open>
  Modelled from the spec: "Transition to Sealing occurs when the action count reaches the
  configured block size OR the configured block time elapses, whichever first".
\<close>

definition check_thresholds ::
  "sequencer_config \<Rightarrow> ('sig, 'addr) assembler \<Rightarrow> ('sig, 'addr) assembler" where
  "check_thresholds cfg asm =
     (if blockSize cfg \<le> length (entries asm) \<or> blockTime cfg \<le> elapsed asm
      then asm\<lparr>phase := Sealing\<rparr> else asm)"

text \<open>
  Modelled from the spec: one event in the phase \<open>Open\<close>. Time passing is added to the
  elapsed time; a pending action is run through the executor, advances the working state
  when it is accepted and is recorded either way; a fatal error aborts. The thresholds are
  checked after each event. In the other phases nothing is appended.
\<close>

definition step ::
  "sequencer_config \<Rightarrow> ('sig, 'addr) assembler \<Rightarrow> ('sig, 'addr) event
     \<Rightarrow> ethers_error + ('sig, 'addr) assembler" where
  "step cfg asm ev =
     (case phase asm of
        Open \<Rightarrow>
          (case ev of
             Elapsed d \<Rightarrow> Inr (check_thresholds cfg (asm\<lparr>elapsed := elapsed asm + d\<rparr>))
           | Pending a \<Rightarrow>
               (case apply_action (workingState asm) a of
                  Inr (s', rootHash) \<Rightarrow>
                    Inr (check_thresholds cfg
                      (asm\<lparr>workingState := s',
                           entries := entries asm @ [(a, Applied rootHash)]\<rparr>))
                | Inl (FatalExecutionError e) \<Rightarrow> Inl e
                | Inl rej \<Rightarrow>
                    Inr (check_thresholds cfg
                      (asm\<lparr>entries := entries asm @ [(a, Rejected rej)]\<rparr>))))
      | _ \<Rightarrow> Inr asm)"

text \<open>Modelled from the spec: the events in order; a fatal error aborts the assembly.\<close>

fun run ::
  "sequencer_config \<Rightarrow> ('sig, 'addr) assembler \<Rightarrow> ('sig, 'addr) event list
     \<Rightarrow> ethers_error + ('sig, 'addr) assembler" where
  "run cfg asm [] = Inr asm"
| "run cfg asm (ev # evs) =
     (case step cfg asm ev of Inl e \<Rightarrow> Inl e | Inr asm' \<Rightarrow> run cfg asm' evs)"

text \<open>
  Spec 3: a block is "an ordered sequence of Actions together with, for each, an execution
  outcome [...] and the pre/post state roots of the block as a whole".
\<close>

record ('sig, 'addr) block =
  actions :: "(('sig, 'addr) action \<times> outcome) list"
  preStateRoot :: "byte list"
  postStateRoot :: "byte list"










section \<open>The batch committer\<close>

text \<open>
  Modelled from the spec: the Batch Committer is not among the sources. Spec 4.6:
  \<open>commit(sealedBlocks) -> Batch\<close>; "Computes a batch commitment as a deterministic
  aggregate (e.g., a hash chain or Merkle root) over the sealed blocks' post-state roots,
  in block order"; spec 6: it emits \<open>{batchId, orderedBlockRoots, commitment}\<close>. The
  spec fixes neither the aggregate nor the batch identifier: both are parameters.
\<close>

record 'c batch =
  batchId :: nat
  orderedBlockRoots :: "byte list list"
  commitment :: 'c

definition commit ::
  "(byte list list \<Rightarrow> 'c) \<Rightarrow> nat \<Rightarrow> ('sig, 'addr) block list \<Rightarrow> 'c batch" where
  "commit aggregate bid sealedBlocks =
     \<lparr>batchId = bid,
      orderedBlockRoots = map postStateRoot sealedBlocks,
      commitment = aggregate (map postStateRoot sealedBlocks)\<rparr>"

section \<open>The action authenticator\<close>

text \<open>
  \<^verbatim>\<open>timestamp: SolidityType.UINT\<close>: the types of the schema, from which the SDK makes the
  typed-data types of each transition (\<^verbatim>\<open>mru.getStfSchemaMap()[name]\<close>). Both transitions
  have the one schema.
\<close>

datatype solidity_type = UINT

definition schema :: "(string \<times> solidity_type) list" where
  "schema = [(''timestamp'', UINT)]"

definition getStfSchemaMap :: "string \<rightharpoonup> (string \<times> solidity_type) list" where
  "getStfSchemaMap = [''increment'' \<mapsto> schema, ''decrement'' \<mapsto> schema]"

text \<open>
  Modelled from the spec: the signature scheme is not among the sources. The typed data
  that is signed has a domain, types and a value. Signatures are ideal, as in symbolic
  protocol models: a signature is the pair of its signer and the typed data signed, and it
  verifies against that typed data only (no two typed data share a digest, no signature is
  forged).
\<close>

record typed_data =
  td_domain :: domain
  td_types :: "(string \<times> solidity_type) list option"
  td_value :: "string \<times> inputs"

datatype 'addr signature = Signed 'addr typed_data

definition signTypedData ::
  "'addr \<Rightarrow> domain \<Rightarrow> (string \<times> solidity_type) list option \<Rightarrow> string \<times> inputs
     \<Rightarrow> 'addr signature" where
  "signTypedData wallet d types v = Signed wallet \<lparr>td_domain = d, td_types = types, td_value = v\<rparr>"

definition verifyTypedData :: "typed_data \<Rightarrow> 'addr signature \<Rightarrow> 'addr option" where
  "verifyTypedData m sg = (case sg of Signed signer m' \<Rightarrow> if m' = m then Some signer else None)"

text \<open>
  \<^verbatim>\<open>
  const domain = mru.config.domain;
  const types = mru.getStfSchemaMap()[name];
  const signature = await wallet.signTypedData(domain, types, { name, inputs });
  \<close>
  The client signs the domain, the types of the transition's schema, and the value made
  of the transition name and the inputs.
\<close>

definition sign_action :: "'addr \<Rightarrow> domain \<Rightarrow> string \<Rightarrow> inputs \<Rightarrow> 'addr signature" where
  "sign_action wallet d n ins = signTypedData wallet d (getStfSchemaMap n) (n, ins)"

text \<open>
  Modelled from the spec: the Action Authenticator is not among the sources. Spec 4.2:
  \<open>authenticate(action, domainParams) -> Identity | AuthError\<close>; it "constructs a canonical
  structured message from {domainParams, transitionName, typedInputs} [...], then verifies
  action.signature against this message and recovers/validates the signer, which must equal
  action.sender". The canonical message is the typed data the client signs.
\<close>

definition canonical_message :: "domain \<Rightarrow> string \<Rightarrow> inputs \<Rightarrow> typed_data" where
  "canonical_message d n ins =
     \<lparr>td_domain = d, td_types = getStfSchemaMap n, td_value = (n, ins)\<rparr>"

datatype auth_error = AuthError

definition authenticate ::
  "('addr signature, 'addr) action \<Rightarrow> domain \<Rightarrow> auth_error + 'addr" where
  "authenticate a domainParams =
     (case verifyTypedData (canonical_message domainParams (name a) (inputs a)) (signature a) of
        None \<Rightarrow> Inl AuthError
      | Some signer \<Rightarrow> if signer = msgSender a then Inr signer else Inl AuthError)"

section \<open>Arithmetic on numbers\<close>

lemma round_half_even_of_int: "round_half_even (of_int z) = z"
  by (simp add: round_half_even_def)

lemma round_half_even_nonneg: "0 \<le> m \<Longrightarrow> 0 \<le> round_half_even m"
  by (auto simp: round_half_even_def Let_def)

lemma round_half_even_pos: "1 \<le> m \<Longrightarrow> 1 \<le> round_half_even m"
proof -
  assume "1 \<le> m"
  then have "1 \<le> \<lfloor>m\<rfloor>" by simp
  then show ?thesis
    by (auto simp: round_half_even_def Let_def)
qed

lemma round_to_double_magnitude:
  assumes "x \<noteq> 0"
  obtains r where "0 \<le> r"
    and "round_to_double x
      = (if 2 ^ 1024 \<le> r then (if 0 < x then Infinity else NegInfinity) else Finite (sgn x * r))"
proof -
  let ?k = "max (floor_log2 \<bar>x\<bar>) (- 1022) - 52"
  let ?r = "of_int (round_half_even (\<bar>x\<bar> / 2 powi ?k)) * (2::rat) powi ?k"
  have "0 \<le> \<bar>x\<bar> / 2 powi ?k"
    by simp
  then have "0 \<le> round_half_even (\<bar>x\<bar> / 2 powi ?k)"
    by (rule round_half_even_nonneg)
  then have "0 \<le> ?r"
    by simp
  moreover have "round_to_double x
      = (if 2 ^ 1024 \<le> ?r then (if 0 < x then Infinity else NegInfinity) else Finite (sgn x * ?r))"
    using assms by (simp add: round_to_double_def Let_def)
  ultimately show thesis
    by (rule that)
qed

lemma round_to_double_nonpos: "x \<le> 0 \<Longrightarrow> \<not> js_gt (round_to_double x) (Finite 0)"
proof (cases "x = 0")
  case True
  then show ?thesis by (simp add: round_to_double_def)
next
  case False
  assume "x \<le> 0"
  with False have neg: "x < 0" by simp
  from False obtain r where "0 \<le> r" and eq: "round_to_double x
      = (if 2 ^ 1024 \<le> r then (if 0 < x then Infinity else NegInfinity) else Finite (sgn x * r))"
    by (rule round_to_double_magnitude)
  from neg \<open>0 \<le> r\<close> have "sgn x * r \<le> 0"
    by (simp add: mult_le_0_iff)
  with neg eq show ?thesis
    by simp
qed

lemma floor_log2_of_int:
  assumes "0 < n"
  shows "floor_log2 (of_int n) = bitlen n - 1"
  using assms by (simp add: floor_log2_def)

lemma round_to_double_of_int:
  assumes "\<bar>n\<bar> \<le> 2 ^ 53"
  shows "round_to_double (of_int n) = Finite (of_int n)"
proof (cases "n = 0")
  case True
  then show ?thesis by (simp add: round_to_double_def)
next
  case False
  let ?a = "\<bar>n\<bar>"
  have pos: "0 < ?a" using False by simp
  have fl: "floor_log2 \<bar>of_int n :: rat\<bar> = bitlen ?a - 1"
    using floor_log2_of_int [OF pos] by simp
  have lo: "1 \<le> bitlen ?a"
    using pos bitlen_eq_zero_iff [of ?a] bitlen_nonneg [of ?a] by linarith
  have hi: "bitlen ?a \<le> 54"
    using assms by (simp add: bitlen_le_iff_power)
  let ?k = "max (bitlen ?a - 1) (- 1022) - 52"
  have k: "?k = bitlen ?a - 53"
    using lo by simp
  have r: "of_int (round_half_even (of_int ?a / 2 powi ?k)) * (2::rat) powi ?k = of_int ?a"
  proof (cases "bitlen ?a = 54")
    case True
    with bitlen_bounds [OF pos] have "2 ^ 53 \<le> ?a"
      by simp
    with assms have a: "?a = 2 ^ 53" by simp
    have "round_half_even (of_int (2 ^ 53) / 2 powi 1) = 2 ^ 52"
      using round_half_even_of_int [of "2 ^ 52"] by simp
    with True a k show ?thesis
      by simp
  next
    case False
    with hi have le: "bitlen ?a \<le> 53" by simp
    define j where "j = nat (53 - bitlen ?a)"
    have kj: "?k = - int j"
      using le k by (simp add: j_def)
    have p: "(2::rat) powi (- int j) = 1 / 2 ^ j"
      by (simp add: power_int_minus_divide)
    have "of_int ?a / (2::rat) powi (- int j) = of_int (?a * 2 ^ j)"
      by (simp add: p)
    then have "round_half_even (of_int ?a / (2::rat) powi (- int j)) = ?a * 2 ^ j"
      using round_half_even_of_int [of "?a * 2 ^ j"] by simp
    then show ?thesis
      unfolding kj by (simp add: p)
  qed
  have small: "\<not> (2::rat) ^ 1024 \<le> of_int ?a"
  proof -
    have "(of_int ?a :: rat) \<le> of_int (2 ^ 53)"
      using assms by (simp only: of_int_le_iff)
    then show ?thesis by simp
  qed
  have "sgn (of_int n :: rat) * of_int ?a = of_int n"
    by (simp add: sgn_if)
  with False fl r small show ?thesis
    by (simp add: round_to_double_def Let_def)
qed

text \<open>An integer of at least \<open>1\<close> rounds to a number greater than \<open>0\<close>.\<close>

lemma round_to_double_pos:
  assumes "1 \<le> n"
  shows "js_gt (round_to_double (of_int n)) (Finite 0)"
proof -
  have pos: "0 < n" using assms by simp
  let ?k = "max (floor_log2 \<bar>of_int n :: rat\<bar>) (- 1022) - 52"
  let ?r = "of_int (round_half_even (\<bar>of_int n\<bar> / 2 powi ?k)) * (2::rat) powi ?k"
  have fl: "floor_log2 \<bar>of_int n :: rat\<bar> = bitlen n - 1"
    using floor_log2_of_int [OF pos] pos by simp
  have lo: "1 \<le> bitlen n"
    using pos bitlen_eq_zero_iff [of n] bitlen_nonneg [of n] by linarith
  have k: "?k = bitlen n - 1 - 52"
    using lo fl by simp
  have "(2::rat) powi ?k \<le> 2 powi (bitlen n - 1)"
    unfolding k by (rule power_int_increasing) simp_all
  also have "\<dots> = of_int (2 ^ nat (bitlen n - 1))"
    using lo by (simp add: power_int_nonneg_exp)
  also have "\<dots> \<le> of_int n"
    using bitlen_bounds [OF pos] by (simp only: of_int_le_iff)
  finally have "(2::rat) powi ?k \<le> \<bar>of_int n\<bar>"
    using pos by simp
  then have "1 \<le> \<bar>of_int n :: rat\<bar> / 2 powi ?k"
    by (simp add: le_divide_eq)
  then have "1 \<le> round_half_even (\<bar>of_int n :: rat\<bar> / 2 powi ?k)"
    by (rule round_half_even_pos)
  then have "0 < ?r"
    by simp
  moreover have "round_to_double (of_int n)
      = (if 2 ^ 1024 \<le> ?r then Infinity else Finite ?r)"
    using pos by (simp add: round_to_double_def Let_def)
  ultimately show ?thesis
    by simp
qed

lemma js_add_int:
  "\<bar>n + m\<bar> \<le> 2 ^ 53 \<Longrightarrow>
   js_add (Finite (of_int n)) (Finite (of_int m)) = Finite (of_int (n + m))"
  using round_to_double_of_int [of "n + m"] by simp

lemma js_sub_int:
  "\<bar>n - m\<bar> \<le> 2 ^ 53 \<Longrightarrow>
   js_sub (Finite (of_int n)) (Finite (of_int m)) = Finite (of_int (n - m))"
  using round_to_double_of_int [of "n - m"] by simp

lemma round_beyond_2_53:
  "round_to_double 9007199254740993 = Finite 9007199254740992"
  "round_to_double 9007199254740994 = Finite 9007199254740994"
  by code_simp+

section \<open>The handlers\<close>

lemma increment_int:
  "\<bar>n + 1\<bar> \<le> 2 ^ 53 \<Longrightarrow> increment (Finite (of_int n)) ins = Inr (Finite (of_int (n + 1)))"
  using js_add_int [of n 1] by (simp add: increment_def)

lemma decrement_cases:
  "decrement s ins =
     (if js_gt (js_sub s (Finite 1)) (Finite 0) then Inr (js_sub s (Finite 1))
      else Inl (RequirementFailure ''Cannot decrement below 0''))"
  by (simp add: decrement_def REQUIRE_def Let_def)

lemma decrement_int:
  "\<bar>n - 1\<bar> \<le> 2 ^ 53 \<Longrightarrow>
   decrement (Finite (of_int n)) ins =
     (if 2 \<le> n then Inr (Finite (of_int (n - 1)))
      else Inl (RequirementFailure ''Cannot decrement below 0''))"
  using js_sub_int [of n 1] by (auto simp: decrement_cases)

lemma decrement_int_succeeds:
  "(\<exists>s'. decrement (Finite (of_int n)) ins = Inr s') \<longleftrightarrow> 2 \<le> n"
proof (cases "2 \<le> n")
  case True
  then have "js_gt (round_to_double (of_int (n - 1))) (Finite 0)"
    by (intro round_to_double_pos) simp
  with True show ?thesis
    by (simp add: decrement_cases)
next
  case False
  then have "(of_int n :: rat) - 1 \<le> 0"
    by simp
  then have "\<not> js_gt (round_to_double (of_int n - 1)) (Finite 0)"
    by (rule round_to_double_nonpos)
  with False show ?thesis
    by (simp add: decrement_cases)
qed

text \<open>
  C9, as the claim states it, fails: \<open>2\<^sup>5\<^sup>3\<close> is a number, and the increment handler
  returns it unchanged, since \<open>2\<^sup>5\<^sup>3 + 1\<close> is not a number and rounds to \<open>2\<^sup>5\<^sup>3\<close>.
\<close>

theorem increment_exact_counterexample:
  "is_number (Finite 9007199254740992)
   \<and> increment (Finite 9007199254740992) \<lparr>timestamp = 7\<rparr> = Inr (Finite 9007199254740992)
   \<and> increment (Finite 9007199254740992) \<lparr>timestamp = 7\<rparr>
       \<noteq> Inr (Finite (9007199254740992 + 1))"
proof -
  have "is_number (Finite (of_int (2 ^ 53)))"
    unfolding is_number_def number.case by (rule round_to_double_of_int) simp
  then show ?thesis
    by (simp add: increment_def round_beyond_2_53)
qed

text \<open>
  C9, amended. The increment handler has no requirement check: on every state \<open>s\<close> and
  every inputs value it succeeds, never signals a requirement failure, and returns the
  number \<open>s + 1\<close> of JavaScript's addition; on every integer state \<open>n\<close> with
  \<open>-2\<^sup>5\<^sup>3 \<le> n < 2\<^sup>5\<^sup>3\<close> that number is exactly \<open>n + 1\<close>.
\<close>

theorem increment_total:
  "increment s ins = Inr (js_add s (Finite 1))
   \<and> (\<nexists>m. increment s ins = Inl (RequirementFailure m))
   \<and> (- (2 ^ 53) \<le> n \<and> n < 2 ^ 53 \<longrightarrow>
        increment (Finite (of_int n)) ins = Inr (Finite (of_int (n + 1))))"
proof -
  have "increment (Finite (of_int n)) ins = Inr (Finite (of_int (n + 1)))"
    if "- (2 ^ 53) \<le> n" "n < 2 ^ 53"
    using that by (intro increment_int) simp
  then show ?thesis
    by (simp add: increment_def)
qed

theorem increment_total_witness:
  "- (2 ^ 53) \<le> (41::int) \<and> (41::int) < 2 ^ 53
   \<and> increment (Finite 41) \<lparr>timestamp = 7\<rparr> = Inr (Finite 42)"
  using increment_total [of "Finite 41" "\<lparr>timestamp = 7\<rparr>" 41, THEN conjunct2, THEN conjunct2]
  by simp

text \<open>
  C5, as the claim states it, fails: \<open>2\<^sup>5\<^sup>3 + 2\<close> is a number of at least \<open>2\<close>, and the
  decrement handler returns \<open>2\<^sup>5\<^sup>3\<close> on it, not \<open>2\<^sup>5\<^sup>3 + 1\<close>, which is not a number.
\<close>

theorem decrement_exact_counterexample:
  "is_number (Finite 9007199254740994)
   \<and> decrement (Finite 9007199254740994) \<lparr>timestamp = 7\<rparr> = Inr (Finite 9007199254740992)
   \<and> decrement (Finite 9007199254740994) \<lparr>timestamp = 7\<rparr>
       \<noteq> Inr (Finite (9007199254740994 - 1))"
  by (simp add: is_number_def decrement_cases round_beyond_2_53)

text \<open>
  C5, amended. The decrement handler succeeds exactly when the number \<open>s - 1\<close> of
  JavaScript's subtraction is greater than \<open>0\<close>, and returns that number; on an integer
  state \<open>n\<close> it succeeds exactly when \<open>n \<ge> 2\<close>, and for \<open>2 \<le> n \<le> 2\<^sup>5\<^sup>3 + 1\<close> the number
  returned is exactly \<open>n - 1\<close>. The guard is checked on the decremented value, so from
  state \<open>1\<close> the handler fails with the message "Cannot decrement below 0".
\<close>

theorem decrement_succeeds_iff:
  "decrement s ins =
     (if js_gt (js_sub s (Finite 1)) (Finite 0) then Inr (js_sub s (Finite 1))
      else Inl (RequirementFailure ''Cannot decrement below 0''))
   \<and> ((\<exists>s'. decrement (Finite (of_int n)) ins = Inr s') \<longleftrightarrow> 2 \<le> n)
   \<and> (2 \<le> n \<and> n \<le> 2 ^ 53 + 1 \<longrightarrow>
        decrement (Finite (of_int n)) ins = Inr (Finite (of_int (n - 1))))
   \<and> decrement (Finite 1) ins = Inl (RequirementFailure ''Cannot decrement below 0'')"
proof -
  have "decrement (Finite (of_int n)) ins = Inr (Finite (of_int (n - 1)))"
    if "2 \<le> n" "n \<le> 2 ^ 53 + 1"
    using that decrement_int [of n ins] by simp
  moreover have "decrement (Finite 1) ins = Inl (RequirementFailure ''Cannot decrement below 0'')"
    using decrement_int [of 1 ins] by simp
  ultimately show ?thesis
    using decrement_int_succeeds [of n ins] decrement_cases [of s ins] by simp
qed

theorem decrement_succeeds_iff_witness:
  "(2::int) \<le> 5 \<and> (5::int) \<le> 2 ^ 53 + 1
   \<and> decrement (Finite 5) \<lparr>timestamp = 7\<rparr> = Inr (Finite 4)
   \<and> (\<exists>s'. decrement (Finite 5) \<lparr>timestamp = 7\<rparr> = Inr s')"
proof -
  note claim = decrement_succeeds_iff [of "Finite 5" "\<lparr>timestamp = 7\<rparr>" 5]
  from claim [THEN conjunct2, THEN conjunct2, THEN conjunct1]
  have "decrement (Finite 5) \<lparr>timestamp = 7\<rparr> = Inr (Finite 4)"
    by simp
  moreover from claim [THEN conjunct2, THEN conjunct1]
  have "\<exists>s'. decrement (Finite 5) \<lparr>timestamp = 7\<rparr> = Inr s'"
    by simp
  ultimately show ?thesis
    by simp
qed

section \<open>The state root is 32 bytes\<close>

lemma length_keccak_round: "length (keccak_round a rc) = 25"
  by (simp add: keccak_round_def iota_def chi_def)

lemma length_foldl_keccak_round:
  "length a = 25 \<Longrightarrow> length (foldl keccak_round a rcs) = 25"
  by (induction rcs arbitrary: a) (simp_all add: length_keccak_round)

lemma length_absorb: "length (absorb st blk) = 25"
  by (simp add: absorb_def keccak_f1600_def length_foldl_keccak_round)

lemma length_foldl_absorb:
  "length st = 25 \<Longrightarrow> length (foldl absorb st blks) = 25"
  by (induction blks arbitrary: st) (simp_all add: length_absorb)

lemma length_concat_lanes: "length (concat (map bytes_of_lane ls)) = 8 * length ls"
  by (induction ls) (simp_all add: bytes_of_lane_def)

lemma length_keccak256: "length (keccak256 bs) = 32"
  by (simp add: keccak256_def length_concat_lanes length_foldl_absorb)

lemma length_uint256_bytes: "length (uint256_bytes n) = 32"
  by (simp add: uint256_bytes_def)

lemma getRootHash_cases:
  "getRootHash s =
     (case s of
        Finite x \<Rightarrow>
          if of_int \<lfloor>x\<rfloor> = x then
            (if \<lfloor>x\<rfloor> < - MAX_SAFE_INTEGER \<or> MAX_SAFE_INTEGER < \<lfloor>x\<rfloor> then Inl Overflow
             else if \<lfloor>x\<rfloor> < 0 then Inl NegativeUnsigned
             else Inr (keccak256 (uint256_bytes (nat \<lfloor>x\<rfloor>))))
          else Inl Underflow
      | _ \<Rightarrow> Inl Underflow)"
  by (simp add: getRootHash_def solidityPackedKeccak256_uint256_def getUint_def
      split: number.splits)

lemma getRootHash_int:
  "getRootHash (Finite (of_int n)) =
     (if n < - MAX_SAFE_INTEGER \<or> MAX_SAFE_INTEGER < n then Inl Overflow
      else if n < 0 then Inl NegativeUnsigned
      else Inr (keccak256 (uint256_bytes (nat n))))"
  by (simp add: getRootHash_cases)

text \<open>
  C4. The state root is a function of the state value: equal states have equal roots.
  On every counter value that has a \<open>uint256\<close> encoding (the integers \<open>0 \<le> n \<le> 2\<^sup>5\<^sup>3 - 1\<close>)
  the root exists and is the Keccak-256 hash of the 32-byte encoding of the counter, and
  every root returned, on any state, is 32 bytes long.
\<close>

theorem getRootHash_fixed_size:
  "(s1 = s2 \<longrightarrow> getRootHash s1 = getRootHash s2)
   \<and> (0 \<le> n \<and> n \<le> MAX_SAFE_INTEGER \<longrightarrow>
        getRootHash (Finite (of_int n)) = Inr (keccak256 (uint256_bytes (nat n)))
        \<and> length (uint256_bytes (nat n)) = 32)
   \<and> (getRootHash s = Inr h \<longrightarrow> length h = 32)"
  by (auto simp: getRootHash_int getRootHash_cases length_keccak256 length_uint256_bytes
      split: if_splits number.splits)

theorem getRootHash_fixed_size_witness:
  "(0::int) \<le> 0 \<and> (0::int) \<le> MAX_SAFE_INTEGER
   \<and> getRootHash (Finite 0) = Inr (keccak256 (uint256_bytes 0))
   \<and> length (keccak256 (uint256_bytes 0)) = 32
   \<and> getRootHash (Finite 0) = getRootHash (Finite 0)"
  using getRootHash_fixed_size
    [of "Finite 0" "Finite 0" 0 "Finite 0" "keccak256 (uint256_bytes 0)"]
  by (simp add: MAX_SAFE_INTEGER_def)

section \<open>Executing actions\<close>

lemma round_small:
  "round_to_double 0 = Finite 0" "round_to_double 1 = Finite 1" "round_to_double 2 = Finite 2"
  using round_to_double_of_int [of 0] round_to_double_of_int [of 1] round_to_double_of_int [of 2]
  by simp_all

lemma round_to_double_ge0: "0 \<le> x \<Longrightarrow> js_ge (round_to_double x) (Finite 0)"
proof (cases "x = 0")
  case True
  then show ?thesis by (simp add: round_to_double_def)
next
  case False
  assume "0 \<le> x"
  with False have pos: "0 < x" by simp
  from False obtain r where "0 \<le> r" and eq: "round_to_double x
      = (if 2 ^ 1024 \<le> r then (if 0 < x then Infinity else NegInfinity) else Finite (sgn x * r))"
    by (rule round_to_double_magnitude)
  with pos show ?thesis
    by simp
qed

lemma js_gt_imp_ge: "js_gt s (Finite 0) \<Longrightarrow> js_ge s (Finite 0)"
  by (cases s) simp_all

lemma transitions_simps:
  "transitions ''increment'' = Some increment"
  "transitions ''decrement'' = Some decrement"
  by (simp_all add: transitions_def)

lemma apply_action_decrement:
  "name a = ''decrement'' \<Longrightarrow>
   apply_action s a =
     (if js_gt (js_sub s (Finite 1)) (Finite 0) then
        (case getRootHash (js_sub s (Finite 1)) of
           Inl e \<Rightarrow> Inl (FatalExecutionError e)
         | Inr r \<Rightarrow> Inr (js_sub s (Finite 1), r))
      else Inl (Rejection (RequirementFailure ''Cannot decrement below 0'')))"
  by (simp add: apply_action_def transitions_simps decrement_cases)

lemma apply_action_increment:
  "name a = ''increment'' \<Longrightarrow>
   apply_action s a =
     (case getRootHash (js_add s (Finite 1)) of
        Inl e \<Rightarrow> Inl (FatalExecutionError e)
      | Inr r \<Rightarrow> Inr (js_add s (Finite 1), r))"
  by (simp add: apply_action_def transitions_simps increment_def)

lemma getRootHash_small:
  "getRootHash (Finite 0) = Inr (keccak256 (uint256_bytes 0))"
  "getRootHash (Finite 1) = Inr (keccak256 (uint256_bytes 1))"
  "getRootHash (Finite 2) = Inr (keccak256 (uint256_bytes 2))"
  using getRootHash_int [of 0] getRootHash_int [of 1] getRootHash_int [of 2]
  by (simp_all add: MAX_SAFE_INTEGER_def)

text \<open>
  C1. From the genesis state \<open>0\<close> the increment action is accepted and gives state \<open>1\<close>.
  The decrement action that follows is not accepted: the handler subtracts first and
  then requires the result to be greater than \<open>0\<close>, so at state \<open>1\<close> it fails with
  "Cannot decrement below 0" and the state stays \<open>1\<close> instead of returning to \<open>0\<close>.
\<close>

theorem increment_then_decrement_rejected:
  "apply_action genesis \<lparr>name = ''increment'', inputs = \<lparr>timestamp = 1\<rparr>,
       signature = (), msgSender = ()\<rparr>
     = Inr (Finite 1, keccak256 (uint256_bytes 1))
   \<and> decrement (Finite 1) \<lparr>timestamp = 2\<rparr>
     = Inl (RequirementFailure ''Cannot decrement below 0'')
   \<and> apply_action (Finite 1) \<lparr>name = ''decrement'', inputs = \<lparr>timestamp = 2\<rparr>,
       signature = (), msgSender = ()\<rparr>
     = Inl (Rejection (RequirementFailure ''Cannot decrement below 0''))
   \<and> replay genesis
       [\<lparr>name = ''increment'', inputs = \<lparr>timestamp = 1\<rparr>, signature = (), msgSender = ()\<rparr>,
        \<lparr>name = ''decrement'', inputs = \<lparr>timestamp = 2\<rparr>, signature = (), msgSender = ()\<rparr>]
     = Inr (Finite 1, [Applied (keccak256 (uint256_bytes 1)),
                Rejected (Rejection (RequirementFailure ''Cannot decrement below 0''))])"
  by (simp add: genesis_def apply_action_increment apply_action_decrement getRootHash_small
      decrement_cases round_small)

lemma handler_nonneg:
  assumes "transitions n = Some h" and "h s ins = Inr s'" and "js_ge s (Finite 0)"
  shows "js_ge s' (Finite 0)"
proof -
  from assms(1) consider "h = increment" | "h = decrement"
    by (auto simp: transitions_def split: if_splits)
  then show ?thesis
  proof cases
    case 1
    with assms(2) have s': "s' = js_add s (Finite 1)"
      by (simp add: increment_def)
    from assms(3) show ?thesis
      unfolding s' by (cases s) (simp_all add: round_to_double_ge0)
  next
    case 2
    with assms(2) have "js_gt s' (Finite 0)"
      by (auto simp: decrement_cases split: if_splits)
    then show ?thesis
      by (rule js_gt_imp_ge)
  qed
qed

lemma apply_action_nonneg:
  assumes "apply_action s a = Inr (s', r)" and "js_ge s (Finite 0)"
  shows "js_ge s' (Finite 0)"
proof -
  from assms(1) obtain h where "transitions (name a) = Some h" and "h s (inputs a) = Inr s'"
    by (auto simp: apply_action_def split: option.splits sum.splits)
  then show ?thesis
    using assms(2) by (rule handler_nonneg)
qed

lemma replay_nonneg:
  "replay s acts = Inr (t, os) \<Longrightarrow> js_ge s (Finite 0) \<Longrightarrow> js_ge t (Finite 0)"
proof (induction acts arbitrary: s os)
  case Nil
  then show ?case by simp
next
  case (Cons a acts)
  show ?case
  proof (cases "apply_action s a")
    case (Inl e)
    with Cons.prems(1) obtain os' where "replay s acts = Inr (t, os')"
      by (cases e) (auto split: sum.splits)
    then show ?thesis
      using Cons.prems(2) by (rule Cons.IH)
  next
    case (Inr p)
    obtain s' r where p: "p = (s', r)"
      by (cases p)
    with Inr Cons.prems(1) obtain os' where "replay s' acts = Inr (t, os')"
      by (auto split: sum.splits)
    moreover have "js_ge s' (Finite 0)"
      using Inr p Cons.prems(2) by (auto intro: apply_action_nonneg)
    ultimately show ?thesis
      by (rule Cons.IH)
  qed
qed

lemma decrement_not_positive:
  assumes "\<not> js_gt s (Finite 0)"
  shows "decrement s ins = Inl (RequirementFailure ''Cannot decrement below 0'')"
proof -
  have "\<not> js_gt (js_sub s (Finite 1)) (Finite 0)"
  proof (cases s)
    case (Finite x)
    with assms have "x - 1 \<le> 0" by simp
    then have "\<not> js_gt (round_to_double (x - 1)) (Finite 0)"
      by (rule round_to_double_nonpos)
    with Finite show ?thesis by simp
  qed (use assms in simp_all)
  then show ?thesis
    by (simp add: decrement_cases)
qed

text \<open>
  C2. On every state \<open>s\<close> that is not greater than \<open>0\<close> (the genesis state among them) the
  decrement handler signals the requirement failure "Cannot decrement below 0"; the
  executor turns it into a rejection, and a run of that one action leaves the state \<open>s\<close>
  as it was, with the rejection recorded. So the counter never goes below zero: a run of
  any actions from a state that is at least \<open>0\<close> ends in a state that is at least \<open>0\<close>.
\<close>

theorem decrement_rejected_at_nonpositive:
  "(\<not> js_gt s (Finite 0) \<and> name a = ''decrement'' \<longrightarrow>
      decrement s (inputs a) = Inl (RequirementFailure ''Cannot decrement below 0'')
      \<and> apply_action s a = Inl (Rejection (RequirementFailure ''Cannot decrement below 0''))
      \<and> replay s [a]
          = Inr (s, [Rejected (Rejection (RequirementFailure ''Cannot decrement below 0''))]))
   \<and> (js_ge s0 (Finite 0) \<and> replay s0 acts = Inr (t, os) \<longrightarrow> js_ge t (Finite 0))"
proof -
  have "js_ge t (Finite 0)" if "js_ge s0 (Finite 0)" "replay s0 acts = Inr (t, os)"
    using that(2,1) by (rule replay_nonneg)
  moreover have "decrement s ins = Inl (RequirementFailure ''Cannot decrement below 0'')"
    if "\<not> js_gt s (Finite 0)" for ins
    using that by (rule decrement_not_positive)
  ultimately show ?thesis
    by (auto simp: apply_action_def transitions_simps)
qed

theorem decrement_rejected_at_nonpositive_witness:
  "\<not> js_gt genesis (Finite 0)
   \<and> replay genesis
        [\<lparr>name = ''decrement'', inputs = \<lparr>timestamp = 5\<rparr>, signature = (), msgSender = ()\<rparr>]
      = Inr (genesis, [Rejected (Rejection (RequirementFailure ''Cannot decrement below 0''))])
   \<and> js_ge genesis (Finite 0)"
proof -
  let ?dec = "\<lparr>name = ''decrement'', inputs = \<lparr>timestamp = 5\<rparr>, signature = (),
     msgSender = ()\<rparr>"
  have "\<not> js_gt genesis (Finite 0)" and ge: "js_ge genesis (Finite 0)"
    by (simp_all add: genesis_def)
  with decrement_rejected_at_nonpositive
    [where s = genesis and a = ?dec, THEN conjunct1]
  have run: "replay genesis [?dec]
      = Inr (genesis, [Rejected (Rejection (RequirementFailure ''Cannot decrement below 0''))])"
    by simp
  with decrement_rejected_at_nonpositive
    [where ?s0.0 = genesis and acts = "[?dec]" and t = genesis
       and os = "[Rejected (Rejection (RequirementFailure ''Cannot decrement below 0''))]",
      THEN conjunct2] ge
  have "js_ge genesis (Finite 0)"
    by simp
  with run show ?thesis
    by (simp add: genesis_def)
qed

text \<open>
  C10. The handlers do not read the typed inputs: each gives the same result on the same
  state whatever the inputs are, and two actions that name the same transition give the
  same execution result on the same state, whatever their timestamps (and signatures and
  senders) are.
\<close>

theorem handlers_ignore_inputs:
  "increment s ins1 = increment s ins2
   \<and> decrement s ins1 = decrement s ins2
   \<and> (name a1 = name a2 \<longrightarrow> apply_action s a1 = apply_action s a2)"
proof -
  have handler: "h s (inputs a1) = h s (inputs a2)" if "transitions n = Some h" for n h
    using that by (auto simp: transitions_def increment_def decrement_def split: if_splits)
  have "apply_action s a1 = apply_action s a2" if "name a1 = name a2"
  proof (cases "transitions (name a2)")
    case None
    with that show ?thesis by (simp add: apply_action_def)
  next
    case (Some h)
    with that handler [OF Some] show ?thesis by (simp add: apply_action_def)
  qed
  then show ?thesis
    by (simp add: increment_def decrement_def)
qed

theorem handlers_ignore_inputs_witness:
  "apply_action (Finite 5) \<lparr>name = ''decrement'', inputs = \<lparr>timestamp = 1\<rparr>,
       signature = (), msgSender = ()\<rparr>
   = apply_action (Finite 5) \<lparr>name = ''decrement'', inputs = \<lparr>timestamp = 2\<rparr>,
       signature = (), msgSender = ()\<rparr>
   \<and> timestamp \<lparr>timestamp = 1\<rparr> \<noteq> timestamp \<lparr>timestamp = 2\<rparr>"
  using handlers_ignore_inputs
    [of "Finite 5" "\<lparr>timestamp = 1\<rparr>" "\<lparr>timestamp = 2\<rparr>"
        "\<lparr>name = ''decrement'', inputs = \<lparr>timestamp = 1\<rparr>, signature = (), msgSender = ()\<rparr>"
        "\<lparr>name = ''decrement'', inputs = \<lparr>timestamp = 2\<rparr>, signature = (), msgSender = ()\<rparr>"]
  by simp

section \<open>Two runs of the same actions\<close>

















section \<open>Sealing blocks\<close>








section \<open>Committing batches\<close>

text \<open>
  C6. Committing the same ordered sequence of sealed blocks twice gives the same
  commitment value (and the same ordered block roots), whatever aggregate the committer
  uses and whatever identifiers the two batches get: the commitment is the aggregate of
  the blocks' post-state roots in block order.
\<close>

theorem commit_idempotent:
  "commitment (commit aggregate bid1 sealedBlocks)
     = commitment (commit aggregate bid2 sealedBlocks)
   \<and> orderedBlockRoots (commit aggregate bid1 sealedBlocks)
     = orderedBlockRoots (commit aggregate bid2 sealedBlocks)
   \<and> commitment (commit aggregate bid1 sealedBlocks)
     = aggregate (map postStateRoot sealedBlocks)"
  by (simp add: commit_def)

section \<open>Authenticating actions\<close>

lemma canonical_message_inject:
  "canonical_message d n ins = canonical_message d' n' ins' \<longleftrightarrow> d = d' \<and> n = n' \<and> ins = ins'"
  by (auto simp: canonical_message_def)

lemma authenticate_Inr:
  "authenticate a d = Inr who \<longleftrightarrow>
     signature a = Signed who (canonical_message d (name a) (inputs a)) \<and> msgSender a = who"
  by (cases "signature a")
    (auto simp: authenticate_def verifyTypedData_def split: option.splits if_splits)

text \<open>
  C8. The message a signature is verified against is the typed data made of the domain
  parameters, the transition name and the typed inputs (the typed data the client signs),
  and the three can be read back from it. An action authenticates only when its signature
  is over exactly that message; so when one signature authenticates two actions, under two
  domains, then the domains, the transition names and the inputs are the same: no
  signature is valid for two transition names or for two deployments.
\<close>

theorem signature_bound_to_domain_and_transition:
  "(canonical_message d n ins = canonical_message d' n' ins'
      \<longleftrightarrow> d = d' \<and> n = n' \<and> ins = ins')
   \<and> sign_action wallet d n ins = Signed wallet (canonical_message d n ins)
   \<and> (authenticate a d = Inr who \<longrightarrow>
        signature a = Signed who (canonical_message d (name a) (inputs a)))
   \<and> (authenticate a1 d1 = Inr who1 \<longrightarrow> authenticate a2 d2 = Inr who2 \<longrightarrow>
        signature a1 = signature a2 \<longrightarrow>
          d1 = d2 \<and> name a1 = name a2 \<and> inputs a1 = inputs a2 \<and> who1 = who2)"
  by (auto simp: canonical_message_inject authenticate_Inr sign_action_def signTypedData_def
      canonical_message_def)

theorem signature_bound_to_domain_and_transition_witness:
  "authenticate \<lparr>name = ''increment'', inputs = \<lparr>timestamp = 7\<rparr>,
       signature = sign_action ''0xA11CE'' stackrConfig_domain ''increment'' \<lparr>timestamp = 7\<rparr>,
       msgSender = ''0xA11CE''\<rparr> stackrConfig_domain = Inr ''0xA11CE''
   \<and> sign_action ''0xA11CE'' stackrConfig_domain ''increment'' \<lparr>timestamp = 7\<rparr>
       = Signed ''0xA11CE'' (canonical_message stackrConfig_domain ''increment'' \<lparr>timestamp = 7\<rparr>)
   \<and> authenticate \<lparr>name = ''decrement'', inputs = \<lparr>timestamp = 7\<rparr>,
       signature = sign_action ''0xA11CE'' stackrConfig_domain ''increment'' \<lparr>timestamp = 7\<rparr>,
       msgSender = ''0xA11CE''\<rparr> stackrConfig_domain = Inl AuthError
   \<and> authenticate \<lparr>name = ''increment'', inputs = \<lparr>timestamp = 7\<rparr>,
       signature = sign_action ''0xA11CE'' stackrConfig_domain ''increment'' \<lparr>timestamp = 7\<rparr>,
       msgSender = ''0xA11CE''\<rparr> (stackrConfig_domain\<lparr>salt := ''0x00''\<rparr>) = Inl AuthError"
proof -
  let ?sg = "sign_action ''0xA11CE'' stackrConfig_domain ''increment'' \<lparr>timestamp = 7\<rparr>"
  let ?a = "\<lparr>name = ''increment'', inputs = \<lparr>timestamp = 7\<rparr>, signature = ?sg,
     msgSender = ''0xA11CE''\<rparr>"
  have ok: "authenticate ?a stackrConfig_domain = Inr ''0xA11CE''"
    by (simp add: authenticate_def verifyTypedData_def sign_action_def signTypedData_def
        canonical_message_def)
  have "authenticate (?a\<lparr>name := ''decrement''\<rparr>) stackrConfig_domain \<noteq> Inr who" for who
    using signature_bound_to_domain_and_transition
      [where ?a1.0 = ?a and ?d1.0 = stackrConfig_domain and ?who1.0 = "''0xA11CE''"
         and ?a2.0 = "?a\<lparr>name := ''decrement''\<rparr>" and ?d2.0 = stackrConfig_domain
         and ?who2.0 = who,
        THEN conjunct2, THEN conjunct2, THEN conjunct2] ok
    by auto
  then have other_name: "authenticate (?a\<lparr>name := ''decrement''\<rparr>) stackrConfig_domain
      = Inl AuthError"
    by (cases "authenticate (?a\<lparr>name := ''decrement''\<rparr>) stackrConfig_domain")
      (auto intro: auth_error.exhaust)
  have "authenticate ?a (stackrConfig_domain\<lparr>salt := ''0x00''\<rparr>) \<noteq> Inr who" for who
    using signature_bound_to_domain_and_transition
      [where ?a1.0 = ?a and ?d1.0 = stackrConfig_domain and ?who1.0 = "''0xA11CE''"
         and ?a2.0 = ?a and ?d2.0 = "stackrConfig_domain\<lparr>salt := ''0x00''\<rparr>"
         and ?who2.0 = who,
        THEN conjunct2, THEN conjunct2, THEN conjunct2] ok
    by (auto simp: stackrConfig_domain_def)
  then have other_domain: "authenticate ?a (stackrConfig_domain\<lparr>salt := ''0x00''\<rparr>)
      = Inl AuthError"
    by (cases "authenticate ?a (stackrConfig_domain\<lparr>salt := ''0x00''\<rparr>)")
      (auto intro: auth_error.exhaust)
  have signed: "?sg
      = Signed ''0xA11CE'' (canonical_message stackrConfig_domain ''increment'' \<lparr>timestamp = 7\<rparr>)"
    using signature_bound_to_domain_and_transition
      [where a = ?a and d = stackrConfig_domain and who = "''0xA11CE''",
        THEN conjunct2, THEN conjunct2, THEN conjunct1] ok
    by simp
  from ok signed other_name other_domain show ?thesis
    by simp
qed

end
